theory Spec2Isabelle
  imports Complex_Main
begin

section \<open>Data model\<close>

text \<open>
  The documents of the store, as the Mongoose schemas of the repository declare them.
  An ObjectId is a natural number. A JavaScript number is a real number; the
  arithmetic of the rating route rounds every result to an IEEE double (\<open>binary64\<close>
  below), the Haversine distance of the listing is taken over the reals. A count is a
  natural number, a date is a natural number of milliseconds. A path that may be
  \<^verbatim>\<open>undefined\<close> is an option. Fields no route of this development reads
  (street, city, e-mail, vehicle data and the like) live in the extension part of the
  records.
\<close>

type_synonym objectId = nat

text \<open>The enumeration of \<^verbatim>\<open>role\<close> in the User schema.\<close>

datatype role = Customer | Rider | Restaurant | Admin

text \<open>
  Modelled from the spec: the status enumeration of the Order schema. The file
  \<^verbatim>\<open>models/Order.js\<close> is not among the sources; the nine values are the states
  listed in section 4.1 of the specification, and seven of them appear as string
  literals in the routes.
\<close>

datatype order_status =
  Pending | Accepted | RiderAssigned | Preparing | Ready | PickedUp | OnTheWay
  | Delivered | Cancelled

record rating =
  average :: "real option"
  count :: "nat option"

record coords =
  latitude :: "real option"
  longitude :: "real option"

record location = coords +
  lastUpdated :: "nat option"

record restaurantDetails =
  kitchenName :: "string option"
  cuisine :: "string list option"
  description :: "string option"
  address :: "coords option"
  isKitchenOpen :: "bool option"
  rd_rating :: "rating option"

record riderDetails =
  isAvailable :: "bool option"
  currentLocation :: "location option"
  rider_rating :: "rating option"

record user =
  uid :: objectId
  name :: string
  role :: role
  avatar :: string
  restaurant_details :: "restaurantDetails option"
  rider_details :: "riderDetails option"

record ratingDoc =
  rating_value :: real
  review :: string
  ratedAt :: nat

record order =
  oid :: objectId
  restaurant :: objectId
  rider :: "objectId option"
  status :: order_status
  restaurantRating :: "ratingDoc option"
  riderRating :: "ratingDoc option"

record menuItem =
  mid :: objectId
  restaurantId :: objectId
  mi_name :: string
  mi_description :: string
  price :: real
  category :: string
  mi_cuisine :: string
  subCategory :: "string option"
  image :: string
  isVeg :: bool
  mi_isAvailable :: bool

record wishlistItem =
  wi_menuItem :: objectId
  wi_name :: "string option"
  wi_price :: "real option"
  quantity :: real

record wishlist =
  wid :: objectId
  wl_user :: objectId
  wl_name :: string
  wl_restaurant :: objectId
  items :: "wishlistItem list"
  updatedAt :: nat

text \<open>The collections of the database, each in insertion order.\<close>

record db =
  users :: "user list"
  orders :: "order list"
  menuItems :: "menuItem list"
  wishlists :: "wishlist list"

text \<open>
  The error taxonomy of the API with its HTTP status: every \<^verbatim>\<open>return
  res.status(...)\<close> of a failing branch and every \<^verbatim>\<open>catch\<close> of a route is one of
  these values. \<open>ConflictError n\<close> is the 400 reply of the kitchen toggle that carries
  \<^verbatim>\<open>activeOrders: n\<close>.
\<close>

datatype error =
  ValidationError | ForbiddenError | NotFoundError | ConflictError nat | InternalError

fun http_status :: "error \<Rightarrow> nat" where
  "http_status ValidationError = 400"
| "http_status ForbiddenError = 403"
| "http_status NotFoundError = 404"
| "http_status (ConflictError n) = 400"
| "http_status InternalError = 500"

subsection \<open>Store access\<close>

text \<open>\<^verbatim>\<open>Model.findById\<close>: the first document with the given id, or null.\<close>

definition findById :: "('a \<Rightarrow> objectId) \<Rightarrow> 'a list \<Rightarrow> objectId \<Rightarrow> 'a option" where
  "findById key docs i = find (\<lambda>d. key d = i) docs"

text \<open>\<^verbatim>\<open>doc.save()\<close> of a loaded document: the stored copy with its id is replaced.\<close>

definition save :: "('a \<Rightarrow> objectId) \<Rightarrow> 'a \<Rightarrow> 'a list \<Rightarrow> 'a list" where
  "save key d docs = map (\<lambda>x. if key x = key d then d else x) docs"

text \<open>\<^verbatim>\<open>a || b\<close> on a number: the fallback stands in for undefined and for 0.\<close>

definition num_or :: "real option \<Rightarrow> real \<Rightarrow> real" where
  "num_or a b = (case a of None \<Rightarrow> b | Some x \<Rightarrow> if x = 0 then b else x)"

definition count_or :: "nat option \<Rightarrow> nat \<Rightarrow> nat" where
  "count_or a b = (case a of None \<Rightarrow> b | Some x \<Rightarrow> if x = 0 then b else x)"

text \<open>\<^verbatim>\<open>Math.round\<close>: the nearest integer, a half going up.\<close>

definition Math_round :: "real \<Rightarrow> real" where
  "Math_round x = of_int \<lfloor>x + 1 / 2\<rfloor>"

subsection \<open>Double-precision arithmetic\<close>

text \<open>
  The value of an arithmetic operation on JavaScript numbers is the exact result rounded
  to the nearest IEEE 754 binary64 number, a tie going to the even significand.
  \<open>exponent n x\<close> is the binary exponent of a positive \<open>x\<close> (found in at most \<open>n\<close>
  halvings or doublings), \<open>pow2\<close> a power of two with an integer exponent, and
  \<open>binary64 x\<close> keeps 53 significant bits of \<open>x\<close>. Overflow, subnormal numbers, NaN
  and the sign of zero are outside this model.
\<close>

definition round_even :: "real \<Rightarrow> int" where
  "round_even x =
     (let f = \<lfloor>x\<rfloor>; d = x - of_int f
      in if d < 1 / 2 then f else if 1 / 2 < d then f + 1 else if even f then f else f + 1)"

fun exponent :: "nat \<Rightarrow> real \<Rightarrow> int" where
  "exponent 0 x = 0"
| "exponent (Suc n) x =
     (if x < 1 then exponent n (x * 2) - 1
      else if 2 \<le> x then exponent n (x / 2) + 1
      else 0)"

definition pow2 :: "int \<Rightarrow> real" where
  "pow2 k = (if 0 \<le> k then 2 ^ nat k else 1 / 2 ^ nat (- k))"

definition binary64 :: "real \<Rightarrow> real" where
  "binary64 x =
     (if x = 0 then 0
      else (let e = exponent 1100 \<bar>x\<bar>
            in of_int (round_even (x * pow2 (52 - e))) * pow2 (e - 52)))"

text \<open>The operators \<^verbatim>\<open>*\<close>, \<^verbatim>\<open>+\<close> and \<^verbatim>\<open>/\<close> on numbers.\<close>

definition js_mul :: "real \<Rightarrow> real \<Rightarrow> real" where
  "js_mul a b = binary64 (a * b)"

definition js_add :: "real \<Rightarrow> real \<Rightarrow> real" where
  "js_add a b = binary64 (a + b)"

definition js_div :: "real \<Rightarrow> real \<Rightarrow> real" where
  "js_div a b = binary64 (a / b)"

section \<open>Kitchen toggle (routes/restaurant.js)\<close>

text \<open>The statuses of the \<^verbatim>\<open>$in\<close> list of the active-order count.\<close>

definition kitchenActiveStatuses :: "order_status list" where
  "kitchenActiveStatuses =
     [Pending, Accepted, RiderAssigned, Preparing, Ready, PickedUp, OnTheWay]"

definition countActiveOrders :: "objectId \<Rightarrow> order list \<Rightarrow> nat" where
  "countActiveOrders r os =
     length (filter (\<lambda>x. restaurant x = r \<and> status x \<in> set kitchenActiveStatuses) os)"

text \<open>\<^verbatim>\<open>user.restaurantDetails?.isKitchenOpen ?? true\<close>\<close>

definition currentStatus :: "user \<Rightarrow> bool" where
  "currentStatus u =
     (case restaurant_details u of
        None \<Rightarrow> True
      | Some rd \<Rightarrow> (case isKitchenOpen rd of None \<Rightarrow> True | Some b \<Rightarrow> b))"

text \<open>The empty object assigned when \<^verbatim>\<open>restaurantDetails\<close> is missing.\<close>

definition emptyDetails :: restaurantDetails where
  "emptyDetails = \<lparr>kitchenName = None, cuisine = None, description = None,
     address = None, isKitchenOpen = None, rd_rating = None\<rparr>"

text \<open>
  \<^verbatim>\<open>PUT /toggle-kitchen\<close>, after the \<^verbatim>\<open>protect\<close> middleware has put the
  authenticated account into \<^verbatim>\<open>req.user\<close>. The reply is the error or the new value
  of \<^verbatim>\<open>isKitchenOpen\<close>; the second component is the store afterwards.
\<close>

definition toggleKitchen :: "user \<Rightarrow> db \<Rightarrow> (error + bool) \<times> db" where
  "toggleKitchen reqUser d =
     (if role reqUser \<noteq> Restaurant then (Inl ForbiddenError, d)
      else (case findById uid (users d) (uid reqUser) of
        None \<Rightarrow> (Inl NotFoundError, d)
      | Some u \<Rightarrow>
          (let cur = currentStatus u;
               activeOrders = (if cur then countActiveOrders (uid u) (orders d) else 0)
           in if cur \<and> activeOrders > 0 then (Inl (ConflictError activeOrders), d)
              else
                (let rd = (case restaurant_details u of None \<Rightarrow> emptyDetails | Some r \<Rightarrow> r);
                     u' = u\<lparr>restaurant_details := Some (rd\<lparr>isKitchenOpen := Some (\<not> cur)\<rparr>)\<rparr>
                 in (Inr (\<not> cur), d\<lparr>users := save uid u' (users d)\<rparr>)))))"

text \<open>The terminal states of an order: delivered and cancelled.\<close>

definition terminal :: "order_status \<Rightarrow> bool" where
  "terminal s = (s = Delivered \<or> s = Cancelled)"

section \<open>Rating submission (routes/rating.js)\<close>

text \<open>The request body of \<^verbatim>\<open>POST /order/:orderId\<close>.\<close>

record ratingBody =
  b_restaurantRating :: "real option"
  b_restaurantReview :: "string option"
  b_riderRating :: "real option"
  b_riderReview :: "string option"

text \<open>\<^verbatim>\<open>review || ''\<close>\<close>

definition str_or_empty :: "string option \<Rightarrow> string" where
  "str_or_empty s = (case s of None \<Rightarrow> [] | Some t \<Rightarrow> t)"

text \<open>
  The aggregate written back: \<^verbatim>\<open>newCount = currentCount + 1\<close>,
  \<^verbatim>\<open>newAvg = ((currentAvg * currentCount) + rating) / newCount\<close> and
  \<^verbatim>\<open>average: Math.round(newAvg * 10) / 10\<close>, each operation in double precision
  (a count and its successor are exact).
\<close>

definition newAggregate :: "real \<Rightarrow> nat \<Rightarrow> real \<Rightarrow> rating" where
  "newAggregate currentAvg currentCount r =
     (let newCount = currentCount + 1;
          newAvg = js_div (js_add (js_mul currentAvg (real currentCount)) r) (real newCount)
      in \<lparr>average = Some (js_div (Math_round (js_mul newAvg 10)) 10),
          count = Some newCount\<rparr>)"

text \<open>
  The nested paths \<^verbatim>\<open>restaurantDetails.rating\<close> and \<^verbatim>\<open>riderDetails.rating\<close> of a
  loaded document: where the stored document lacks them, Mongoose supplies the defaults
  of the schema (average 0 and count 0 for a restaurant, average 2.5 and count 0 for a
  rider), so reading them never throws.
\<close>

definition defaultRestaurantRating :: rating where
  "defaultRestaurantRating = \<lparr>average = Some 0, count = Some 0\<rparr>"

definition defaultRiderRating :: rating where
  "defaultRiderRating = \<lparr>average = Some (5 / 2), count = Some 0\<rparr>"

text \<open>
  The validators of \<^verbatim>\<open>rating.average\<close> in the User schema (\<^verbatim>\<open>min: 0, max: 5\<close>):
  \<^verbatim>\<open>save()\<close> runs them on the path the route has assigned and throws when one fails.
\<close>

definition ratingValid :: "rating \<Rightarrow> bool" where
  "ratingValid rt = (case average rt of None \<Rightarrow> True | Some a \<Rightarrow> 0 \<le> a \<and> a \<le> 5)"

text \<open>The empty object that stands for a missing \<^verbatim>\<open>riderDetails\<close>.\<close>

definition emptyRiderDetails :: riderDetails where
  "emptyRiderDetails = \<lparr>isAvailable = None, currentLocation = None, rider_rating = None\<rparr>"

text \<open>
  The block \<^verbatim>\<open>if (restaurantRating) { ... }\<close>. \<open>populated\<close> is
  \<^verbatim>\<open>order.restaurant\<close> after \<^verbatim>\<open>populate\<close>: reading \<^verbatim>\<open>_id\<close> of null throws,
  and the \<^verbatim>\<open>catch\<close> of the route answers 500.
\<close>

definition rateRestaurant ::
  "nat \<Rightarrow> ratingBody \<Rightarrow> user option \<Rightarrow> order \<Rightarrow> db \<Rightarrow> error + (order \<times> db)" where
  "rateRestaurant now body populated ord d =
     (case b_restaurantRating body of
        None \<Rightarrow> Inr (ord, d)
      | Some r \<Rightarrow>
          if r = 0 then Inr (ord, d)
          else
            let ord' = ord\<lparr>restaurantRating := Some \<lparr>rating_value = r,
                  review = str_or_empty (b_restaurantReview body), ratedAt = now\<rparr>\<rparr>
            in (case populated of
                  None \<Rightarrow> Inl InternalError
                | Some p \<Rightarrow>
                    (case findById uid (users d) (uid p) of
                       None \<Rightarrow> Inr (ord', d)
                     | Some u \<Rightarrow>
                         (let rd = (case restaurant_details u of
                                      None \<Rightarrow> emptyDetails | Some x \<Rightarrow> x);
                              rt = (case rd_rating rd of
                                      None \<Rightarrow> defaultRestaurantRating | Some x \<Rightarrow> x);
                              currentAvg = num_or (average rt) 0;
                              currentCount = count_or (count rt) 0;
                              rt' = newAggregate currentAvg currentCount r;
                              u' = u\<lparr>restaurant_details := Some (rd\<lparr>rd_rating := Some rt'\<rparr>)\<rparr>
                          in if ratingValid rt'
                             then Inr (ord', d\<lparr>users := save uid u' (users d)\<rparr>)
                             else Inl InternalError))))"

text \<open>The block \<^verbatim>\<open>if (riderRating && order.rider) { ... }\<close>, with the fallback 2.5.\<close>

definition rateRider ::
  "nat \<Rightarrow> ratingBody \<Rightarrow> user option \<Rightarrow> order \<Rightarrow> db \<Rightarrow> error + (order \<times> db)" where
  "rateRider now body populated ord d =
     (case b_riderRating body of
        None \<Rightarrow> Inr (ord, d)
      | Some r \<Rightarrow>
          if r = 0 then Inr (ord, d)
          else
            (case populated of
               None \<Rightarrow> Inr (ord, d)
             | Some p \<Rightarrow>
                 let ord' = ord\<lparr>riderRating := Some \<lparr>rating_value = r,
                       review = str_or_empty (b_riderReview body), ratedAt = now\<rparr>\<rparr>
                 in (case findById uid (users d) (uid p) of
                       None \<Rightarrow> Inr (ord', d)
                     | Some u \<Rightarrow>
                         (let rd = (case rider_details u of
                                      None \<Rightarrow> emptyRiderDetails | Some x \<Rightarrow> x);
                              rt = (case rider_rating rd of
                                      None \<Rightarrow> defaultRiderRating | Some x \<Rightarrow> x);
                              currentAvg = num_or (average rt) (5 / 2);
                              currentCount = count_or (count rt) 0;
                              rt' = newAggregate currentAvg currentCount r;
                              u' = u\<lparr>rider_details := Some (rd\<lparr>rider_rating := Some rt'\<rparr>)\<rparr>
                          in if ratingValid rt'
                             then Inr (ord', d\<lparr>users := save uid u' (users d)\<rparr>)
                             else Inl InternalError))))"

text \<open>
  \<^verbatim>\<open>POST /order/:orderId\<close>. The route has no middleware in front of it. The validators
  of the Order schema are not among the sources: \<open>orderValid\<close> stands for what
  \<^verbatim>\<open>order.save()\<close> accepts. A failing step leaves the writes of the steps before it
  in the store, as the route does.
\<close>

definition submitRating ::
  "(order \<Rightarrow> bool) \<Rightarrow> nat \<Rightarrow> objectId \<Rightarrow> ratingBody \<Rightarrow> db \<Rightarrow> (error + order) \<times> db" where
  "submitRating orderValid now orderId body d =
     (case findById oid (orders d) orderId of
        None \<Rightarrow> (Inl NotFoundError, d)
      | Some ord \<Rightarrow>
          let popRestaurant = findById uid (users d) (restaurant ord);
              popRider = (case rider ord of None \<Rightarrow> None | Some i \<Rightarrow> findById uid (users d) i)
          in if status ord \<noteq> Delivered then (Inl ValidationError, d)
             else
               (case rateRestaurant now body popRestaurant ord d of
                  Inl e \<Rightarrow> (Inl e, d)
                | Inr (ord1, d1) \<Rightarrow>
                    (case rateRider now body popRider ord1 d1 of
                       Inl e \<Rightarrow> (Inl e, d1)
                     | Inr (ord2, d2) \<Rightarrow>
                         if orderValid ord2
                         then (Inr ord2, d2\<lparr>orders := save oid ord2 (orders d2)\<rparr>)
                         else (Inl InternalError, d2))))"

text \<open>
  The running mean as the specification words it: the mean of the old ratings and the new
  one, rounded half-up to one decimal place.
\<close>

definition round_half_up_1 :: "real \<Rightarrow> real" where
  "round_half_up_1 x = of_int \<lfloor>x * 10 + 1 / 2\<rfloor> / 10"

definition specNewAvg :: "real \<Rightarrow> nat \<Rightarrow> real \<Rightarrow> real" where
  "specNewAvg oldAvg oldCount newRating =
     round_half_up_1 ((oldAvg * real oldCount + newRating) / real (oldCount + 1))"

text \<open>The stored aggregates of an account.\<close>

definition restaurantAggregate :: "db \<Rightarrow> objectId \<Rightarrow> rating option" where
  "restaurantAggregate d i =
     (case findById uid (users d) i of
        None \<Rightarrow> None
      | Some u \<Rightarrow> (case restaurant_details u of None \<Rightarrow> None | Some rd \<Rightarrow> rd_rating rd))"

definition riderAggregate :: "db \<Rightarrow> objectId \<Rightarrow> rating option" where
  "riderAggregate d i =
     (case findById uid (users d) i of
        None \<Rightarrow> None
      | Some u \<Rightarrow> (case rider_details u of None \<Rightarrow> None | Some rd \<Rightarrow> rider_rating rd))"

section \<open>Menu items (routes/restaurant.js)\<close>

text \<open>The request body of \<^verbatim>\<open>PUT /menu/:id\<close>; an absent key is \<open>None\<close>.\<close>

record menuBody =
  mb_name :: "string option"
  mb_description :: "string option"
  mb_price :: "real option"
  mb_category :: "string option"
  mb_cuisine :: "string option"
  mb_subCategory :: "string option"
  mb_image :: "string option"
  mb_isVeg :: "bool option"
  mb_isAvailable :: "bool option"

text \<open>
  The setters and validators of the MenuItem schema. \<^verbatim>\<open>trim: true\<close> strips white
  space at both ends when a string path is assigned; \<^verbatim>\<open>save()\<close> validates the
  assigned paths and throws when a validator fails.
\<close>

definition is_space :: "char \<Rightarrow> bool" where
  "is_space c = (c \<in> set [CHR '' '', CHR 0x09, CHR 0x0A, CHR 0x0B, CHR 0x0C, CHR 0x0D])"

definition trim :: "string \<Rightarrow> string" where
  "trim s = rev (dropWhile is_space (rev (dropWhile is_space s)))"

definition categories :: "string list" where
  "categories = [''Starter'', ''Main Course'', ''Dessert'', ''Beverage'', ''Snacks'']"

definition cuisines :: "string list" where
  "cuisines = [''Indian'', ''Chinese'', ''Italian'', ''Mexican'', ''Thai'', ''Japanese'',
     ''French'', ''Mediterranean'', ''American'', ''Korean'', ''Middle Eastern'',
     ''Continental'']"

definition subCategories :: "string list" where
  "subCategories = [''Pizza'', ''Burger'', ''Pasta'', ''Noodles'', ''Rice'', ''Sandwich'',
     ''Salad'', ''Soup'', ''Curry'', ''Biryani'', ''Kebab'', ''Meal'', ''Cake'', ''Dessert'',
     ''Juice'', ''Coffee'', ''Tea'']"

definition unless_undefined :: "'a option \<Rightarrow> ('a \<Rightarrow> bool) \<Rightarrow> bool" where
  "unless_undefined v ok = (case v of None \<Rightarrow> True | Some x \<Rightarrow> ok x)"

definition menuBodyValid :: "menuBody \<Rightarrow> bool" where
  "menuBodyValid b =
     (unless_undefined (mb_name b) (\<lambda>n. 2 \<le> length (trim n) \<and> length (trim n) \<le> 100)
      \<and> unless_undefined (mb_description b)
            (\<lambda>s. trim s \<noteq> [] \<and> length (trim s) \<le> 500)
      \<and> unless_undefined (mb_price b) (\<lambda>p. 0 \<le> p)
      \<and> unless_undefined (mb_category b) (\<lambda>c. c \<in> set categories)
      \<and> unless_undefined (mb_cuisine b) (\<lambda>c. c \<in> set cuisines)
      \<and> unless_undefined (mb_subCategory b) (\<lambda>c. c \<in> set subCategories)
      \<and> unless_undefined (mb_image b) (\<lambda>i. i \<noteq> []))"

text \<open>The nine assignments \<^verbatim>\<open>if (x !== undefined) menuItem.x = x\<close>.\<close>

definition applyMenuBody :: "menuBody \<Rightarrow> menuItem \<Rightarrow> menuItem" where
  "applyMenuBody b m =
     m\<lparr>mi_name := (case mb_name b of None \<Rightarrow> mi_name m | Some x \<Rightarrow> trim x),
       mi_description := (case mb_description b of None \<Rightarrow> mi_description m | Some x \<Rightarrow> trim x),
       price := (case mb_price b of None \<Rightarrow> price m | Some x \<Rightarrow> x),
       category := (case mb_category b of None \<Rightarrow> category m | Some x \<Rightarrow> x),
       mi_cuisine := (case mb_cuisine b of None \<Rightarrow> mi_cuisine m | Some x \<Rightarrow> x),
       subCategory := (case mb_subCategory b of None \<Rightarrow> subCategory m | Some x \<Rightarrow> Some x),
       image := (case mb_image b of None \<Rightarrow> image m | Some x \<Rightarrow> x),
       isVeg := (case mb_isVeg b of None \<Rightarrow> isVeg m | Some x \<Rightarrow> x),
       mi_isAvailable := (case mb_isAvailable b of None \<Rightarrow> mi_isAvailable m | Some x \<Rightarrow> x)\<rparr>"

text \<open>
  \<^verbatim>\<open>PUT /menu/:id\<close> after \<^verbatim>\<open>protect\<close>: the role check, the lookup, the
  ownership check, the assignments and the save.
\<close>

definition updateMenuItem ::
  "user \<Rightarrow> objectId \<Rightarrow> menuBody \<Rightarrow> db \<Rightarrow> (error + menuItem) \<times> db" where
  "updateMenuItem reqUser i b d =
     (if role reqUser \<noteq> Restaurant then (Inl ForbiddenError, d)
      else (case findById mid (menuItems d) i of
        None \<Rightarrow> (Inl NotFoundError, d)
      | Some m \<Rightarrow>
          if restaurantId m \<noteq> uid reqUser then (Inl ForbiddenError, d)
          else
            (let m' = applyMenuBody b m
             in if menuBodyValid b
                then (Inr m', d\<lparr>menuItems := save mid m' (menuItems d)\<rparr>)
                else (Inl InternalError, d))))"

text \<open>\<^verbatim>\<open>Model.findByIdAndDelete\<close>: the first document with the id is removed.\<close>

definition findByIdAndDelete :: "('a \<Rightarrow> objectId) \<Rightarrow> objectId \<Rightarrow> 'a list \<Rightarrow> 'a list" where
  "findByIdAndDelete key i docs =
     (case findById key docs i of None \<Rightarrow> docs | Some x \<Rightarrow> remove1 x docs)"

text \<open>\<^verbatim>\<open>DELETE /menu/:id\<close> after \<^verbatim>\<open>protect\<close>.\<close>

definition deleteMenuItem :: "user \<Rightarrow> objectId \<Rightarrow> db \<Rightarrow> (error + unit) \<times> db" where
  "deleteMenuItem reqUser i d =
     (if role reqUser \<noteq> Restaurant then (Inl ForbiddenError, d)
      else (case findById mid (menuItems d) i of
        None \<Rightarrow> (Inl NotFoundError, d)
      | Some m \<Rightarrow>
          if restaurantId m \<noteq> uid reqUser then (Inl ForbiddenError, d)
          else (Inr (), d\<lparr>menuItems := findByIdAndDelete mid i (menuItems d)\<rparr>)))"

section \<open>Rider self-service (routes/rider.js)\<close>

text \<open>
  A request as the two \<^verbatim>\<open>PATCH\<close> routes receive it: \<open>caller\<close> is the account the
  request authenticates as, if any (what an authentication middleware would put into
  \<^verbatim>\<open>req.user\<close>), and the body names the rider. Neither route is registered with a
  middleware, and neither handler reads \<open>caller\<close>.
\<close>

record availabilityRequest =
  caller :: "user option"
  riderId :: objectId
  req_isAvailable :: "bool option"

record locationRequest =
  loc_caller :: "user option"
  loc_riderId :: objectId
  req_latitude :: "real option"
  req_longitude :: "real option"

definition emptyLocation :: location where
  "emptyLocation = \<lparr>latitude = None, longitude = None, lastUpdated = None\<rparr>"

text \<open>\<^verbatim>\<open>PATCH /availability\<close>\<close>

definition patchAvailability :: "availabilityRequest \<Rightarrow> db \<Rightarrow> (error + bool option) \<times> db" where
  "patchAvailability req d =
     (case findById uid (users d) (riderId req) of
        None \<Rightarrow> (Inl NotFoundError, d)
      | Some r \<Rightarrow>
          if role r \<noteq> Rider then (Inl NotFoundError, d)
          else
            (let rd = (case rider_details r of None \<Rightarrow> emptyRiderDetails | Some x \<Rightarrow> x);
                 r' = r\<lparr>rider_details := Some (rd\<lparr>isAvailable := req_isAvailable req\<rparr>)\<rparr>
             in (Inr (req_isAvailable req), d\<lparr>users := save uid r' (users d)\<rparr>)))"

text \<open>\<^verbatim>\<open>PATCH /location\<close>; \<open>now\<close> is the value of \<^verbatim>\<open>new Date()\<close>.\<close>

definition patchLocation ::
  "nat \<Rightarrow> locationRequest \<Rightarrow> db \<Rightarrow> (error + (real option \<times> real option)) \<times> db" where
  "patchLocation now req d =
     (case findById uid (users d) (loc_riderId req) of
        None \<Rightarrow> (Inl NotFoundError, d)
      | Some r \<Rightarrow>
          if role r \<noteq> Rider then (Inl NotFoundError, d)
          else
            (let rd = (case rider_details r of None \<Rightarrow> emptyRiderDetails | Some x \<Rightarrow> x);
                 loc = (case currentLocation rd of None \<Rightarrow> emptyLocation | Some l \<Rightarrow> l);
                 loc' = loc\<lparr>latitude := req_latitude req, longitude := req_longitude req,
                          lastUpdated := Some now\<rparr>;
                 r' = r\<lparr>rider_details := Some (rd\<lparr>currentLocation := Some loc'\<rparr>)\<rparr>
             in (Inr (req_latitude req, req_longitude req),
                 d\<lparr>users := save uid r' (users d)\<rparr>)))"

text \<open>The account a rider id names: the document with that id, if its role is rider.\<close>

definition riderAccount :: "db \<Rightarrow> objectId \<Rightarrow> user option" where
  "riderAccount d i =
     (case findById uid (users d) i of
        None \<Rightarrow> None
      | Some u \<Rightarrow> if role u = Rider then Some u else None)"

definition availabilityOf :: "user \<Rightarrow> bool option" where
  "availabilityOf u = (case rider_details u of None \<Rightarrow> None | Some rd \<Rightarrow> isAvailable rd)"

definition locationOf :: "user \<Rightarrow> location option" where
  "locationOf u = (case rider_details u of None \<Rightarrow> None | Some rd \<Rightarrow> currentLocation rd)"

section \<open>Restaurant listing (routes/restaurant.js)\<close>

text \<open>
  \<^verbatim>\<open>Math.atan2\<close> on real numbers, and the Haversine distance of the route with
  \<open>R = 6371\<close> km.
\<close>

definition atan2 :: "real \<Rightarrow> real \<Rightarrow> real" where
  "atan2 y x =
     (if 0 < x then arctan (y / x)
      else if x < 0 \<and> 0 \<le> y then arctan (y / x) + pi
      else if x < 0 \<and> y < 0 then arctan (y / x) - pi
      else if 0 < y then pi / 2
      else if y < 0 then - pi / 2
      else 0)"

definition calculateDistance :: "real \<Rightarrow> real \<Rightarrow> real \<Rightarrow> real \<Rightarrow> real" where
  "calculateDistance lat1 lon1 lat2 lon2 =
     (let R = 6371;
          dLat = (lat2 - lat1) * pi / 180;
          dLon = (lon2 - lon1) * pi / 180;
          a = sin (dLat / 2) * sin (dLat / 2)
              + cos (lat1 * pi / 180) * cos (lat2 * pi / 180)
                * sin (dLon / 2) * sin (dLon / 2);
          c = 2 * atan2 (sqrt a) (sqrt (1 - a))
      in R * c)"

text \<open>
  The query string. A parameter is \<open>None\<close> when it is absent or empty (falsy) and holds
  the value of \<^verbatim>\<open>parseFloat\<close> otherwise; the string \<^verbatim>\<open>"0"\<close> is truthy, so
  \<open>Some 0\<close> is a supplied coordinate.
\<close>

record listingQuery =
  q_latitude :: "real option"
  q_longitude :: "real option"
  q_maxDistance :: "real option"

text \<open>One element of the reply.\<close>

record restaurantEntry =
  re_id :: objectId
  re_name :: string
  re_avatar :: string
  re_cuisine :: "string list + string"
  re_description :: string
  re_address :: coords
  re_isKitchenOpen :: bool
  re_rating :: rating
  re_menuItems :: "menuItem list"
  menuCount :: nat

text \<open>\<^verbatim>\<open>a || b\<close> on a string: the fallback stands in for undefined and for the empty string.\<close>

definition str_or :: "string option \<Rightarrow> string \<Rightarrow> string" where
  "str_or a b = (case a of None \<Rightarrow> b | Some s \<Rightarrow> if s = [] then b else s)"

definition opt_chain :: "'a option \<Rightarrow> ('a \<Rightarrow> 'b option) \<Rightarrow> 'b option" where
  "opt_chain a f = (case a of None \<Rightarrow> None | Some x \<Rightarrow> f x)"

text \<open>The object built for one restaurant inside \<^verbatim>\<open>restaurants.map\<close>.\<close>

definition restaurantWithMenu :: "db \<Rightarrow> user \<Rightarrow> restaurantEntry" where
  "restaurantWithMenu d r =
     (let items = filter (\<lambda>m. restaurantId m = uid r \<and> mi_isAvailable m = True) (menuItems d);
          rd = restaurant_details r
      in \<lparr>re_id = uid r,
          re_name = str_or (opt_chain rd kitchenName) (name r),
          re_avatar = avatar r,
          re_cuisine = (case opt_chain rd cuisine of None \<Rightarrow> Inr [] | Some cs \<Rightarrow> Inl cs),
          re_description = str_or (opt_chain rd description) [],
          re_address = (case opt_chain rd address of
                          None \<Rightarrow> \<lparr>latitude = None, longitude = None\<rparr> | Some a \<Rightarrow> a),
          re_isKitchenOpen = (case opt_chain rd isKitchenOpen of None \<Rightarrow> True | Some b \<Rightarrow> b),
          re_rating = (case opt_chain rd rd_rating of
                         None \<Rightarrow> \<lparr>average = Some 0, count = Some 0\<rparr> | Some x \<Rightarrow> x),
          re_menuItems = items,
          menuCount = length items\<rparr>)"

text \<open>\<^verbatim>\<open>!x\<close> on a number that may be undefined.\<close>

definition falsy :: "real option \<Rightarrow> bool" where
  "falsy x = (case x of None \<Rightarrow> True | Some v \<Rightarrow> v = 0)"

text \<open>The body of the \<^verbatim>\<open>forEach\<close>: whether the restaurant is pushed to the result.\<close>

definition withinRange :: "real \<Rightarrow> real \<Rightarrow> real \<Rightarrow> restaurantEntry \<Rightarrow> bool" where
  "withinRange userLat userLon maxDist r =
     (let restLat = latitude (re_address r);
          restLon = longitude (re_address r)
      in if falsy restLat \<or> falsy restLon then False
         else (case (restLat, restLon) of
                 (Some la, Some lo) \<Rightarrow> calculateDistance userLat userLon la lo \<le> maxDist
               | _ \<Rightarrow> False))"

text \<open>\<^verbatim>\<open>GET /all\<close>, a public route.\<close>

definition getAll :: "listingQuery \<Rightarrow> db \<Rightarrow> restaurantEntry list" where
  "getAll q d =
     (let restaurants = filter (\<lambda>u. role u = Restaurant) (users d);
          restaurantsWithMenu = map (restaurantWithMenu d) restaurants;
          restaurantsWithMenu = filter (\<lambda>r. menuCount r > 0) restaurantsWithMenu
      in case (q_latitude q, q_longitude q) of
           (Some userLat, Some userLon) \<Rightarrow>
             (let maxDist = (case q_maxDistance q of None \<Rightarrow> 25 | Some m \<Rightarrow> m)
              in filter (withinRange userLat userLon maxDist) restaurantsWithMenu)
         | _ \<Rightarrow> restaurantsWithMenu)"

section \<open>Wishlist items (routes/wishlist.js)\<close>

record addItemBody =
  ai_menuItem :: objectId
  ai_name :: "string option"
  ai_price :: "real option"
  ai_quantity :: "real option"

text \<open>
  Reading an ObjectId-valued property of a MenuItem document by name. The schema
  declares \<^verbatim>\<open>restaurantId\<close> (and Mongoose adds \<^verbatim>\<open>_id\<close>); any other property
  name, \<^verbatim>\<open>restaurant\<close> among them, reads as undefined.
\<close>

definition menuItemRef :: "string \<Rightarrow> menuItem \<Rightarrow> objectId option" where
  "menuItemRef path m =
     (if path = ''restaurantId'' then Some (restaurantId m)
      else if path = ''_id'' then Some (mid m)
      else None)"

text \<open>\<^verbatim>\<open>min: 1\<close> on the quantity of every item, run by \<^verbatim>\<open>wishlist.save()\<close>.\<close>

definition wishlistValid :: "wishlist \<Rightarrow> bool" where
  "wishlistValid w = list_all (\<lambda>it. 1 \<le> quantity it) (items w)"

text \<open>
  The update of \<^verbatim>\<open>wishlist.items\<close>: the first item with the same menu item gets the
  quantity added, otherwise a new item is pushed.
\<close>

fun addOrIncrement :: "addItemBody \<Rightarrow> wishlistItem list \<Rightarrow> wishlistItem list" where
  "addOrIncrement b [] =
     [\<lparr>wi_menuItem = ai_menuItem b, wi_name = ai_name b, wi_price = ai_price b,
       quantity = num_or (ai_quantity b) 1\<rparr>]"
| "addOrIncrement b (it # its) =
     (if wi_menuItem it = ai_menuItem b
      then it\<lparr>quantity := quantity it + num_or (ai_quantity b) 1\<rparr> # its
      else it # addOrIncrement b its)"

text \<open>
  \<^verbatim>\<open>POST /:id/items\<close> after \<^verbatim>\<open>protect\<close>. The guard reads
  \<^verbatim>\<open>menuItemDoc.restaurant.toString()\<close>: calling \<^verbatim>\<open>toString\<close> on undefined throws
  a TypeError, which the \<^verbatim>\<open>catch\<close> of the route answers with 500.
\<close>

definition addWishlistItem ::
  "nat \<Rightarrow> user \<Rightarrow> objectId \<Rightarrow> addItemBody \<Rightarrow> db \<Rightarrow> (error + wishlist) \<times> db" where
  "addWishlistItem now reqUser i b d =
     (case find (\<lambda>w. wid w = i \<and> wl_user w = uid reqUser) (wishlists d) of
        None \<Rightarrow> (Inl NotFoundError, d)
      | Some w \<Rightarrow>
          (case findById mid (menuItems d) (ai_menuItem b) of
             None \<Rightarrow> (Inl ValidationError, d)
           | Some menuItemDoc \<Rightarrow>
               (case menuItemRef ''restaurant'' menuItemDoc of
                  None \<Rightarrow> (Inl InternalError, d)
                | Some r \<Rightarrow>
                    if r \<noteq> wl_restaurant w then (Inl ValidationError, d)
                    else
                      (let w' = w\<lparr>items := addOrIncrement b (items w), updatedAt := now\<rparr>
                       in if wishlistValid w'
                          then (Inr w', d\<lparr>wishlists := save wid w' (wishlists d)\<rparr>)
                          else (Inl InternalError, d)))))"

section \<open>Public profile (the User model)\<close>

text \<open>
  \<^verbatim>\<open>userSchema.methods.toJSON\<close>. A plain object is a map from property names to
  values; \<open>toObject\<close> is Mongoose's conversion of the document, and each
  \<^verbatim>\<open>delete\<close> removes one key.
\<close>

definition toJSON :: "('doc \<Rightarrow> (string \<rightharpoonup> 'v)) \<Rightarrow> 'doc \<Rightarrow> (string \<rightharpoonup> 'v)" where
  "toJSON toObject this =
     (let user = toObject this;
          user = user(''password'' := None);
          user = user(''passwordResetToken'' := None);
          user = user(''passwordResetExpires'' := None)
      in user)"

definition secretKeys :: "string set" where
  "secretKeys = {''password'', ''passwordResetToken'', ''passwordResetExpires''}"

section \<open>Order lifecycle\<close>

text \<open>
  Modelled from the spec: the status transition of \<^verbatim>\<open>PATCH /api/orders/:id/status\<close>.
  The file \<^verbatim>\<open>routes/order.js\<close> is not among the sources (the server file only mounts
  it), so the transition is written from section 4.1 of the specification: the fixed
  sequence pending, accepted, rider_assigned, preparing, ready, picked_up, on_the_way,
  delivered; the restaurant advances to accepted, preparing and ready; the
  rider-assignment step binds an available rider and moves to rider_assigned; the rider
  advances to picked_up, on_the_way and delivered; restaurant, customer and admin may
  move to cancelled; delivered and cancelled are terminal; a request that is not in
  this table fails with \<open>InvalidTransitionError\<close>. Where section 4.1 says both
  "cancelled reachable from any non-terminal state" and "cancelled before pickup", the
  table follows the first wording.
\<close>

datatype transition_error = InvalidTransitionError

definition riderAvailable :: "user \<Rightarrow> bool" where
  "riderAvailable a =
     (case rider_details a of None \<Rightarrow> False | Some rd \<Rightarrow> isAvailable rd = Some True)"

definition stateTable :: "role \<Rightarrow> order_status \<Rightarrow> order_status \<Rightarrow> bool" where
  "stateTable r s t =
     (if t = Cancelled then r \<in> {Restaurant, Customer, Admin} \<and> s \<notin> {Delivered, Cancelled}
      else (case s of
              Pending \<Rightarrow> r = Restaurant \<and> t = Accepted
            | Accepted \<Rightarrow> r = Rider \<and> t = RiderAssigned
            | RiderAssigned \<Rightarrow> r = Restaurant \<and> t = Preparing
            | Preparing \<Rightarrow> r = Restaurant \<and> t = Ready
            | Ready \<Rightarrow> r = Rider \<and> t = PickedUp
            | PickedUp \<Rightarrow> r = Rider \<and> t = OnTheWay
            | OnTheWay \<Rightarrow> r = Rider \<and> t = Delivered
            | Delivered \<Rightarrow> False
            | Cancelled \<Rightarrow> False))"

definition permitted :: "user \<Rightarrow> order_status \<Rightarrow> order_status \<Rightarrow> bool" where
  "permitted actor s t =
     (stateTable (role actor) s t \<and> (t = RiderAssigned \<longrightarrow> riderAvailable actor))"

definition transition ::
  "user \<Rightarrow> order_status \<Rightarrow> order \<Rightarrow> (transition_error + unit) \<times> order" where
  "transition actor target ord =
     (if permitted actor (status ord) target
      then (Inr (), ord\<lparr>status := target,
              rider := (if target = RiderAssigned then Some (uid actor) else rider ord)\<rparr>)
      else (Inl InvalidTransitionError, ord))"

text \<open>The fixed sequence, as the successor of each state and as a position.\<close>

fun successor :: "order_status \<Rightarrow> order_status option" where
  "successor Pending = Some Accepted"
| "successor Accepted = Some RiderAssigned"
| "successor RiderAssigned = Some Preparing"
| "successor Preparing = Some Ready"
| "successor Ready = Some PickedUp"
| "successor PickedUp = Some OnTheWay"
| "successor OnTheWay = Some Delivered"
| "successor Delivered = None"
| "successor Cancelled = None"

text \<open>The role that performs the step into a state of the sequence.\<close>

fun stepRole :: "order_status \<Rightarrow> role option" where
  "stepRole Accepted = Some Restaurant"
| "stepRole Preparing = Some Restaurant"
| "stepRole Ready = Some Restaurant"
| "stepRole RiderAssigned = Some Rider"
| "stepRole PickedUp = Some Rider"
| "stepRole OnTheWay = Some Rider"
| "stepRole Delivered = Some Rider"
| "stepRole Pending = None"
| "stepRole Cancelled = None"

text \<open>
  The immediate successor permitted for the acting role, in the words of the
  specification: the next state of the sequence when the step into it belongs to the
  actor's role (an available rider for the assignment step), or \<open>cancelled\<close> for
  restaurant, customer and admin; nothing from a terminal state.
\<close>

definition immediateSuccessorFor :: "user \<Rightarrow> order_status \<Rightarrow> order_status \<Rightarrow> bool" where
  "immediateSuccessorFor actor s t =
     (\<not> terminal s
      \<and> ((successor s = Some t \<and> stepRole t = Some (role actor)
            \<and> (t = RiderAssigned \<longrightarrow> riderAvailable actor))
         \<or> (t = Cancelled \<and> role actor \<in> {Restaurant, Customer, Admin})))"

section \<open>Example stores\<close>

definition kitchen1 :: user where
  "kitchen1 = \<lparr>uid = 1, name = ''Spice Hub'', role = Restaurant, avatar = [],
     restaurant_details = Some (emptyDetails\<lparr>isKitchenOpen := Some True\<rparr>),
     rider_details = None\<rparr>"

definition orderOf :: "objectId \<Rightarrow> order_status \<Rightarrow> order" where
  "orderOf i s = \<lparr>oid = i, restaurant = 1, rider = None, status = s,
     restaurantRating = None, riderRating = None\<rparr>"

definition busyDb :: db where
  "busyDb = \<lparr>users = [kitchen1], orders = [orderOf 10 Preparing, orderOf 11 Preparing],
     menuItems = [], wishlists = []\<rparr>"

definition idleDb :: db where
  "idleDb = \<lparr>users = [kitchen1], orders = [orderOf 10 Delivered, orderOf 11 Cancelled],
     menuItems = [], wishlists = []\<rparr>"

definition kitchen2 :: user where
  "kitchen2 = \<lparr>uid = 2, name = ''Dosa Corner'', role = Restaurant, avatar = [],
     restaurant_details = Some (emptyDetails\<lparr>rd_rating :=
       Some \<lparr>average = Some 4, count = Some 3\<rparr>\<rparr>),
     rider_details = None\<rparr>"

definition riderWith :: "objectId \<Rightarrow> real \<Rightarrow> nat \<Rightarrow> user" where
  "riderWith i a c = \<lparr>uid = i, name = ''Asha'', role = Rider, avatar = [],
     restaurant_details = None,
     rider_details = Some \<lparr>isAvailable = Some True, currentLocation = None,
       rider_rating = Some \<lparr>average = Some a, count = Some c\<rparr>\<rparr>\<rparr>"

definition deliveredOrder :: "objectId \<Rightarrow> objectId \<Rightarrow> order" where
  "deliveredOrder i k = \<lparr>oid = i, restaurant = 2, rider = Some k, status = Delivered,
     restaurantRating = None, riderRating = None\<rparr>"

definition ratedDb :: db where
  "ratedDb = \<lparr>users = [kitchen2, riderWith 3 (9 / 2) 1, riderWith 4 0 1],
     orders = [deliveredOrder 20 3, deliveredOrder 21 4], menuItems = [], wishlists = []\<rparr>"

definition bothRatings :: ratingBody where
  "bothRatings = \<lparr>b_restaurantRating = Some 5, b_restaurantReview = Some ''good'',
     b_riderRating = Some 4, b_riderReview = None\<rparr>"

definition riderOnly :: ratingBody where
  "riderOnly = \<lparr>b_restaurantRating = None, b_restaurantReview = None,
     b_riderRating = Some 5, b_riderReview = None\<rparr>"

definition customer6 :: user where
  "customer6 = \<lparr>uid = 6, name = ''Ravi'', role = Customer, avatar = [],
     restaurant_details = None, rider_details = None\<rparr>"

definition itemOf :: "objectId \<Rightarrow> objectId \<Rightarrow> bool \<Rightarrow> menuItem" where
  "itemOf i r a = \<lparr>mid = i, restaurantId = r, mi_name = ''Masala Dosa'',
     mi_description = ''Crisp rice crepe'', price = 80, category = ''Main Course'',
     mi_cuisine = ''Indian'', subCategory = None, image = ''dosa.png'', isVeg = True,
     mi_isAvailable = a\<rparr>"

definition wishlist30 :: wishlist where
  "wishlist30 = \<lparr>wid = 30, wl_user = 6, wl_name = ''Weekend'', wl_restaurant = 1,
     items = [], updatedAt = 0\<rparr>"

definition menuDb :: db where
  "menuDb = \<lparr>users = [kitchen1, kitchen2, customer6], orders = [],
     menuItems = [itemOf 40 1 True, itemOf 41 2 False], wishlists = [wishlist30]\<rparr>"

definition priceBody :: menuBody where
  "priceBody = \<lparr>mb_name = None, mb_description = None, mb_price = Some 95,
     mb_category = None, mb_cuisine = None, mb_subCategory = None, mb_image = None,
     mb_isVeg = None, mb_isAvailable = None\<rparr>"

definition addItem40 :: addItemBody where
  "addItem40 = \<lparr>ai_menuItem = 40, ai_name = Some ''Masala Dosa'', ai_price = Some 80,
     ai_quantity = Some 2\<rparr>"

definition noQuery :: listingQuery where
  "noQuery = \<lparr>q_latitude = None, q_longitude = None, q_maxDistance = None\<rparr>"

text \<open>
  The distance example of the specification: a restaurant at (0, 0) with one available
  menu item, queried from (0, 0.001).
\<close>

definition originKitchen :: user where
  "originKitchen = \<lparr>uid = 5, name = ''Null Island Grill'', role = Restaurant, avatar = [],
     restaurant_details = Some (emptyDetails\<lparr>address :=
       Some \<lparr>latitude = Some 0, longitude = Some 0\<rparr>\<rparr>),
     rider_details = None\<rparr>"

definition originDb :: db where
  "originDb = \<lparr>users = [originKitchen], orders = [], menuItems = [itemOf 50 5 True],
     wishlists = []\<rparr>"

definition nearQuery :: "real \<Rightarrow> listingQuery" where
  "nearQuery m = \<lparr>q_latitude = Some 0, q_longitude = Some (1 / 1000), q_maxDistance = Some m\<rparr>"

definition anonAvailability :: availabilityRequest where
  "anonAvailability = \<lparr>caller = None, riderId = 3, req_isAvailable = Some False\<rparr>"

definition customerLocation :: locationRequest where
  "customerLocation = \<lparr>loc_caller = Some customer6, loc_riderId = 3,
     req_latitude = Some 12, req_longitude = Some 77\<rparr>"

definition profileA :: "string \<rightharpoonup> string" where
  "profileA = [''name'' \<mapsto> ''Ana'', ''email'' \<mapsto> ''ana@example.org'',
     ''password'' \<mapsto> ''hash-one'']"

definition profileB :: "string \<rightharpoonup> string" where
  "profileB = [''name'' \<mapsto> ''Ana'', ''email'' \<mapsto> ''ana@example.org'',
     ''password'' \<mapsto> ''hash-two'', ''passwordResetToken'' \<mapsto> ''token'',
     ''passwordResetExpires'' \<mapsto> ''2026-01-01'']"

text \<open>The position of a status in the fixed sequence.\<close>

fun rank :: "order_status \<Rightarrow> nat" where
  "rank Pending = 0"
| "rank Accepted = 1"
| "rank RiderAssigned = 2"
| "rank Preparing = 3"
| "rank Ready = 4"
| "rank PickedUp = 5"
| "rank OnTheWay = 6"
| "rank Delivered = 7"
| "rank Cancelled = 8"

text \<open>
  A restaurant whose stored aggregate is the double 1.4 over 7 ratings (what the route
  stores after the ratings 1, 1, 1, 1, 1, 1 and 4), with one delivered order.
\<close>

definition kitchenWith :: "real \<Rightarrow> nat \<Rightarrow> user" where
  "kitchenWith a c = \<lparr>uid = 2, name = ''Dosa Corner'', role = Restaurant, avatar = [],
     restaurant_details = Some (emptyDetails\<lparr>rd_rating :=
       Some \<lparr>average = Some a, count = Some c\<rparr>\<rparr>),
     rider_details = None\<rparr>"

definition seasonedDb :: db where
  "seasonedDb = \<lparr>users = [kitchenWith (binary64 (7 / 5)) 7],
     orders = [deliveredOrder 20 3], menuItems = [], wishlists = []\<rparr>"

definition restaurantOnly :: ratingBody where
  "restaurantOnly = \<lparr>b_restaurantRating = Some 1, b_restaurantReview = None,
     b_riderRating = None, b_riderReview = None\<rparr>"

section \<open>Verification\<close>

subsection \<open>Store lemmas\<close>

lemma findById_key: "findById key docs i = Some x \<Longrightarrow> key x = i \<and> x \<in> set docs"
  unfolding findById_def by (induction docs) (auto split: if_splits)

lemma findById_uid: "findById key docs i = Some x \<Longrightarrow> key x = i"
  using findById_key by fastforce

lemma findById_save:
  "findById key (save key x docs) i =
     (case findById key docs i of None \<Rightarrow> None | Some y \<Rightarrow> if key x = i then Some x else Some y)"
  unfolding findById_def save_def
  by (induction docs) auto

lemma findById_save_other:
  "j \<noteq> key x \<Longrightarrow> findById key (save key x docs) j = findById key docs j"
  by (simp add: findById_save split: option.splits)

subsection \<open>Kitchen-close guard\<close>

lemma active_iff_not_terminal: "s \<in> set kitchenActiveStatuses \<longleftrightarrow> \<not> terminal s"
  by (cases s) (simp_all add: kitchenActiveStatuses_def terminal_def)

lemma countActiveOrders_nonterminal:
  "countActiveOrders r os = length (filter (\<lambda>x. restaurant x = r \<and> \<not> terminal (status x)) os)"
  by (simp add: countActiveOrders_def active_iff_not_terminal)

text \<open>
  Claim C2. For a restaurant account whose kitchen is open, let \<open>n\<close> be the number of its
  orders that are neither delivered nor cancelled. When \<open>n\<close> is positive the toggle
  answers the conflict error carrying exactly \<open>n\<close> and the store (so the flag) is
  unchanged; when \<open>n\<close> is zero it answers the new flag value \<open>False\<close> and the stored
  account has its kitchen closed.
\<close>

theorem toggle_kitchen_close_guard:
  assumes "role reqUser = Restaurant"
    and "findById uid (users d) (uid reqUser) = Some u"
    and "currentStatus u"
    and "n = length (filter (\<lambda>x. restaurant x = uid reqUser \<and> \<not> terminal (status x)) (orders d))"
  shows "(0 < n \<longrightarrow> toggleKitchen reqUser d = (Inl (ConflictError n), d))
       \<and> (n = 0 \<longrightarrow> fst (toggleKitchen reqUser d) = Inr False
             \<and> (\<exists>u'. findById uid (users (snd (toggleKitchen reqUser d))) (uid reqUser) = Some u'
                     \<and> \<not> currentStatus u'))"
proof -
  have k: "uid u = uid reqUser" using assms(2) findById_key by fastforce
  have c: "countActiveOrders (uid u) (orders d) = n"
    using assms(4) k by (simp add: countActiveOrders_nonterminal)
  show ?thesis
    using assms(1,2,3) c k
    by (auto simp: toggleKitchen_def Let_def findById_save currentStatus_def split: option.splits)
qed

text \<open>
  The example of the specification: two orders in \<open>preparing\<close> give
  \<^verbatim>\<open>activeOrders: 2\<close>; with only finished orders the kitchen closes.
\<close>

theorem toggle_kitchen_close_guard_witness:
  "toggleKitchen kitchen1 busyDb = (Inl (ConflictError 2), busyDb)
   \<and> fst (toggleKitchen kitchen1 idleDb) = Inr False
   \<and> (\<exists>u'. findById uid (users (snd (toggleKitchen kitchen1 idleDb))) 1 = Some u'
          \<and> \<not> currentStatus u')"
  using toggle_kitchen_close_guard [of kitchen1 busyDb kitchen1 2]
    toggle_kitchen_close_guard [of kitchen1 idleDb kitchen1 0]
  by (simp add: kitchen1_def busyDb_def idleDb_def orderOf_def findById_def currentStatus_def
      emptyDetails_def terminal_def)

subsection \<open>Rating submission\<close>

text \<open>
  Claim C4. A rating submitted for an order whose status is not \<open>delivered\<close> is answered
  with the validation error (HTTP 400) and the store is returned as it was: no rating
  sub-document is set and no aggregate changes.
\<close>

theorem rating_requires_delivered:
  assumes "findById oid (orders d) i = Some ord"
    and "status ord \<noteq> Delivered"
  shows "submitRating orderValid now i body d = (Inl ValidationError, d)
       \<and> http_status ValidationError = 400"
  using assms by (simp add: submitRating_def Let_def)

theorem rating_requires_delivered_witness:
  "submitRating (\<lambda>x. True) 0 10
     \<lparr>b_restaurantRating = Some 5, b_restaurantReview = None,
      b_riderRating = Some 4, b_riderReview = None\<rparr> busyDb
   = (Inl ValidationError, busyDb)"
  using rating_requires_delivered [of busyDb 10 "orderOf 10 Preparing" "\<lambda>x. True" 0]
  by (simp add: busyDb_def orderOf_def findById_def)

text \<open>Evaluating the double-precision operations on numerals.\<close>

lemma exponent_numeral:
  "exponent (numeral k) x =
     (if x < 1 then exponent (pred_numeral k) (x * 2) - 1
      else if 2 \<le> x then exponent (pred_numeral k) (x / 2) + 1
      else 0)"
  by (simp add: numeral_eq_Suc)

lemmas js_eval = js_mul_def js_add_def js_div_def binary64_def exponent_numeral
  round_even_def pow2_def Math_round_def Let_def

text \<open>
  The example of the specification: 4.0 over 3 ratings and a new rating 5 are stored as
  the double 4.3 over 4 ratings.
\<close>

lemma newAggregate_spec_example:
  "newAggregate 4 3 5 = \<lparr>average = Some (binary64 (43 / 10)), count = Some 4\<rparr>"
  unfolding newAggregate_def Let_def by (simp add: js_eval)

lemma newAggregate_first_rating:
  "newAggregate (num_or (Some 0) 0) (count_or (Some 0) 0) 5
     = \<lparr>average = Some 5, count = Some 1\<rparr>"
  unfolding newAggregate_def Let_def num_or_def count_or_def by (simp add: js_eval)

lemma newAggregate_zero_restaurant:
  "newAggregate (num_or (Some 0) 0) (Suc 0) 5 = \<lparr>average = Some (5 / 2), count = Some 2\<rparr>"
  unfolding newAggregate_def Let_def num_or_def by (simp add: js_eval)

lemma newAggregate_zero_rider:
  "newAggregate (num_or (Some 0) (5 / 2)) (Suc 0) 5
     = \<lparr>average = Some (binary64 (19 / 5)), count = Some 2\<rparr>"
  unfolding newAggregate_def Let_def num_or_def by (simp add: js_eval)

lemma newAggregate_seasoned:
  "newAggregate (num_or (Some (binary64 (7 / 5))) 0) 7 1
     = \<lparr>average = Some (binary64 (13 / 10)), count = Some 8\<rparr>"
  unfolding newAggregate_def Let_def num_or_def by (simp add: js_eval)

lemma binary64_bounds:
  "0 \<le> binary64 (19 / 5)" "binary64 (19 / 5) \<le> 5"
  "0 \<le> binary64 (13 / 10)" "binary64 (13 / 10) \<le> 5"
  by (simp_all add: js_eval)

lemma binary64_nearby:
  "\<bar>binary64 (19 / 5) - 19 / 5\<bar> < 1 / 10 ^ 15"
  "\<bar>binary64 (13 / 10) - 13 / 10\<bar> < 1 / 10 ^ 15"
  "\<bar>binary64 (7 / 5) - 7 / 5\<bar> < 1 / 10 ^ 15"
  by (simp_all add: js_eval)

lemma spec_values:
  "specNewAvg 0 1 5 = 5 / 2" "specNewAvg (7 / 5) 7 1 = 7 / 5" "specNewAvg 4 3 5 = 43 / 10"
  by (simp_all add: specNewAvg_def round_half_up_1_def)

text \<open>
  A restaurant whose stored document has no rating yet reads as 0 over 0: the first
  rating 5 of a delivered order is accepted and stored as 5 over 1.
\<close>

lemma rating_defaults_when_missing:
  "restaurantAggregate idleDb 1 = None
   \<and> restaurantAggregate (snd (submitRating (\<lambda>x. True) 0 10 bothRatings idleDb)) 1
       = Some \<lparr>average = Some 5, count = Some 1\<rparr>"
  by (simp add: submitRating_def rateRestaurant_def rateRider_def idleDb_def orderOf_def
      kitchen1_def bothRatings_def findById_def save_def emptyDetails_def Let_def
      ratingValid_def restaurantAggregate_def defaultRestaurantRating_def
      newAggregate_first_rating)

text \<open>
  Claim C3 at two rating submissions on delivered orders where the stored aggregate is
  not the stated one. (a) Rider 4 has the stored average 0 over 1 rating; a new rating 5
  is stored as the double 3.8 over 2, where the stated mean is 2.5: the rider block
  reads a stored 0 as 2.5, while the restaurant block computes 2.5 from the same
  numbers. (b) Restaurant 2 has the stored average 1.4 over 7 ratings; a new rating 1 is
  stored as the double 1.3 over 8, where the stated mean 1.35 rounds half-up to 1.4.
\<close>

theorem rating_aggregate_not_the_stated_mean:
  "riderAggregate ratedDb 4 = Some \<lparr>average = Some 0, count = Some 1\<rparr>
   \<and> riderAggregate (snd (submitRating (\<lambda>x. True) 0 21 riderOnly ratedDb)) 4
       = Some \<lparr>average = Some (binary64 (19 / 5)), count = Some 2\<rparr>
   \<and> \<bar>binary64 (19 / 5) - 19 / 5\<bar> < 1 / 10 ^ 15
   \<and> specNewAvg 0 1 5 = 5 / 2
   \<and> newAggregate (num_or (Some 0) 0) 1 5 = \<lparr>average = Some (5 / 2), count = Some 2\<rparr>
   \<and> restaurantAggregate seasonedDb 2
       = Some \<lparr>average = Some (binary64 (7 / 5)), count = Some 7\<rparr>
   \<and> \<bar>binary64 (7 / 5) - 7 / 5\<bar> < 1 / 10 ^ 15
   \<and> restaurantAggregate (snd (submitRating (\<lambda>x. True) 0 20 restaurantOnly seasonedDb)) 2
       = Some \<lparr>average = Some (binary64 (13 / 10)), count = Some 8\<rparr>
   \<and> \<bar>binary64 (13 / 10) - 13 / 10\<bar> < 1 / 10 ^ 15
   \<and> specNewAvg (7 / 5) 7 1 = 7 / 5"
proof -
  have a: "riderAggregate ratedDb 4 = Some \<lparr>average = Some 0, count = Some 1\<rparr>"
    by (simp add: riderAggregate_def ratedDb_def kitchen2_def riderWith_def findById_def)
  have b: "riderAggregate (snd (submitRating (\<lambda>x. True) 0 21 riderOnly ratedDb)) 4
       = Some \<lparr>average = Some (binary64 (19 / 5)), count = Some 2\<rparr>"
    by (simp add: submitRating_def rateRestaurant_def rateRider_def ratedDb_def
        deliveredOrder_def kitchen2_def riderWith_def riderOnly_def findById_def save_def
        Let_def count_or_def ratingValid_def riderAggregate_def newAggregate_zero_rider
        binary64_bounds)
  have c: "restaurantAggregate seasonedDb 2
       = Some \<lparr>average = Some (binary64 (7 / 5)), count = Some 7\<rparr>"
    by (simp add: restaurantAggregate_def seasonedDb_def kitchenWith_def findById_def
        emptyDetails_def)
  have d: "restaurantAggregate (snd (submitRating (\<lambda>x. True) 0 20 restaurantOnly seasonedDb)) 2
       = Some \<lparr>average = Some (binary64 (13 / 10)), count = Some 8\<rparr>"
    by (simp add: submitRating_def rateRestaurant_def rateRider_def seasonedDb_def
        deliveredOrder_def kitchenWith_def restaurantOnly_def findById_def save_def
        emptyDetails_def Let_def count_or_def ratingValid_def restaurantAggregate_def
        newAggregate_seasoned binary64_bounds)
  have e: "newAggregate (num_or (Some 0) 0) 1 5 = \<lparr>average = Some (5 / 2), count = Some 2\<rparr>"
    using newAggregate_zero_restaurant by simp
  show ?thesis
    by (simp only: a b c d e spec_values binary64_nearby simp_thms)
qed

subsection \<open>Menu item ownership\<close>

text \<open>
  Claim C7. For a request on an existing menu item, update and delete succeed only when
  the requester is a restaurant account whose id is the item's \<open>restaurantId\<close>; every
  other requester gets the forbidden error (HTTP 403) and the store is unchanged, so the
  item is still present with the same fields.
\<close>

theorem menu_item_ownership_guard:
  assumes "findById mid (menuItems d) i = Some m"
  shows "(\<forall>m'. fst (updateMenuItem reqUser i b d) = Inr m'
            \<longrightarrow> role reqUser = Restaurant \<and> restaurantId m = uid reqUser)
       \<and> (fst (deleteMenuItem reqUser i d) = Inr ()
            \<longrightarrow> role reqUser = Restaurant \<and> restaurantId m = uid reqUser)
       \<and> (\<not> (role reqUser = Restaurant \<and> restaurantId m = uid reqUser)
            \<longrightarrow> updateMenuItem reqUser i b d = (Inl ForbiddenError, d)
              \<and> deleteMenuItem reqUser i d = (Inl ForbiddenError, d)
              \<and> findById mid (menuItems (snd (updateMenuItem reqUser i b d))) i = Some m
              \<and> findById mid (menuItems (snd (deleteMenuItem reqUser i d))) i = Some m
              \<and> http_status ForbiddenError = 403)"
  using assms
  by (auto simp: updateMenuItem_def deleteMenuItem_def Let_def split: if_splits)

text \<open>
  Item 40 belongs to restaurant 1: restaurant 2 and a customer are refused, and the
  owner's update goes through.
\<close>

theorem menu_item_ownership_guard_witness:
  "updateMenuItem kitchen2 40 priceBody menuDb = (Inl ForbiddenError, menuDb)
   \<and> deleteMenuItem kitchen2 40 menuDb = (Inl ForbiddenError, menuDb)
   \<and> updateMenuItem customer6 40 priceBody menuDb = (Inl ForbiddenError, menuDb)
   \<and> deleteMenuItem customer6 40 menuDb = (Inl ForbiddenError, menuDb)
   \<and> fst (updateMenuItem kitchen1 40 priceBody menuDb) = Inr ((itemOf 40 1 True)\<lparr>price := 95\<rparr>)"
proof -
  have f: "findById mid (menuItems menuDb) 40 = Some (itemOf 40 1 True)"
    by (simp add: menuDb_def itemOf_def findById_def)
  have k: "\<not> (role kitchen2 = Restaurant \<and> restaurantId (itemOf 40 1 True) = uid kitchen2)"
    "\<not> (role customer6 = Restaurant \<and> restaurantId (itemOf 40 1 True) = uid customer6)"
    by (simp_all add: kitchen2_def customer6_def itemOf_def)
  have o: "fst (updateMenuItem kitchen1 40 priceBody menuDb)
             = Inr ((itemOf 40 1 True)\<lparr>price := 95\<rparr>)"
    by (simp add: updateMenuItem_def f kitchen1_def itemOf_def priceBody_def
        applyMenuBody_def menuBodyValid_def unless_undefined_def Let_def)
  from menu_item_ownership_guard [OF f, of kitchen2 priceBody]
    menu_item_ownership_guard [OF f, of customer6 priceBody] k o
  show ?thesis by blast
qed

subsection \<open>Rider self-service\<close>

text \<open>
  Claim C8, as amended. The two \<^verbatim>\<open>PATCH\<close> routes are gated on the account named in
  the body, not on the caller: when the id names no account with the rider role the
  reply is the not-found error and the store is unchanged; otherwise the named rider's
  availability (or location, with the time of the request) is overwritten with the
  values of the body. No other account is touched, and the caller makes no difference.
\<close>

theorem rider_patch_target_guard:
  "(riderAccount d (riderId req) = None
      \<longrightarrow> patchAvailability req d = (Inl NotFoundError, d))
   \<and> (riderAccount d (riderId req) \<noteq> None
      \<longrightarrow> fst (patchAvailability req d) = Inr (req_isAvailable req)
        \<and> (\<exists>u'. riderAccount (snd (patchAvailability req d)) (riderId req) = Some u'
               \<and> availabilityOf u' = req_isAvailable req))
   \<and> (\<forall>j. j \<noteq> riderId req
      \<longrightarrow> findById uid (users (snd (patchAvailability req d))) j = findById uid (users d) j)
   \<and> patchAvailability (req\<lparr>caller := c\<rparr>) d = patchAvailability req d
   \<and> (riderAccount d (loc_riderId lreq) = None
      \<longrightarrow> patchLocation now lreq d = (Inl NotFoundError, d))
   \<and> (riderAccount d (loc_riderId lreq) \<noteq> None
      \<longrightarrow> fst (patchLocation now lreq d) = Inr (req_latitude lreq, req_longitude lreq)
        \<and> (\<exists>u' l. riderAccount (snd (patchLocation now lreq d)) (loc_riderId lreq) = Some u'
               \<and> locationOf u' = Some l \<and> latitude l = req_latitude lreq
               \<and> longitude l = req_longitude lreq \<and> lastUpdated l = Some now))
   \<and> (\<forall>j. j \<noteq> loc_riderId lreq
      \<longrightarrow> findById uid (users (snd (patchLocation now lreq d))) j = findById uid (users d) j)
   \<and> patchLocation now (lreq\<lparr>loc_caller := c\<rparr>) d = patchLocation now lreq d"
proof -
  have A: "riderAccount d (riderId req) = None
      \<longrightarrow> patchAvailability req d = (Inl NotFoundError, d)"
    by (auto simp: riderAccount_def patchAvailability_def split: option.splits if_splits)
  have B: "riderAccount d (riderId req) \<noteq> None
      \<longrightarrow> fst (patchAvailability req d) = Inr (req_isAvailable req)
        \<and> (\<exists>u'. riderAccount (snd (patchAvailability req d)) (riderId req) = Some u'
               \<and> availabilityOf u' = req_isAvailable req)"
    by (auto simp: riderAccount_def patchAvailability_def Let_def findById_save
        availabilityOf_def dest: findById_uid split: option.splits if_splits)
  have C: "findById uid (users (snd (patchAvailability req d))) j = findById uid (users d) j"
    if "j \<noteq> riderId req" for j
    using that
    by (auto simp: patchAvailability_def Let_def findById_save_other
        dest: findById_uid split: option.splits)
  have D: "patchAvailability (req\<lparr>caller := c\<rparr>) d = patchAvailability req d"
    by (simp add: patchAvailability_def split: option.splits)
  have E: "riderAccount d (loc_riderId lreq) = None
      \<longrightarrow> patchLocation now lreq d = (Inl NotFoundError, d)"
    by (auto simp: riderAccount_def patchLocation_def split: option.splits if_splits)
  have F: "riderAccount d (loc_riderId lreq) \<noteq> None
      \<longrightarrow> fst (patchLocation now lreq d) = Inr (req_latitude lreq, req_longitude lreq)
        \<and> (\<exists>u' l. riderAccount (snd (patchLocation now lreq d)) (loc_riderId lreq) = Some u'
               \<and> locationOf u' = Some l \<and> latitude l = req_latitude lreq
               \<and> longitude l = req_longitude lreq \<and> lastUpdated l = Some now)"
    by (auto simp: riderAccount_def patchLocation_def Let_def findById_save
        locationOf_def dest: findById_uid split: option.splits if_splits)
  have G: "findById uid (users (snd (patchLocation now lreq d))) j = findById uid (users d) j"
    if "j \<noteq> loc_riderId lreq" for j
    using that
    by (auto simp: patchLocation_def Let_def findById_save_other
        dest: findById_uid split: option.splits)
  have H: "patchLocation now (lreq\<lparr>loc_caller := c\<rparr>) d = patchLocation now lreq d"
    by (simp add: patchLocation_def split: option.splits)
  show ?thesis using A B C D E F G H by blast
qed

text \<open>
  Rider 3 exists, account 2 is a restaurant: a request naming rider 3 is served, one
  naming account 2 is answered with not found.
\<close>

theorem rider_patch_target_guard_witness:
  "fst (patchAvailability anonAvailability ratedDb) = Inr (Some False)
   \<and> patchAvailability (anonAvailability\<lparr>riderId := 2\<rparr>) ratedDb = (Inl NotFoundError, ratedDb)
   \<and> fst (patchLocation 1000 customerLocation ratedDb) = Inr (Some 12, Some 77)"
proof -
  have r3: "riderAccount ratedDb (riderId anonAvailability) \<noteq> None"
    "riderAccount ratedDb (loc_riderId customerLocation) \<noteq> None"
    by (simp_all add: riderAccount_def ratedDb_def findById_def kitchen2_def riderWith_def
        anonAvailability_def customerLocation_def)
  have r2: "riderAccount ratedDb (riderId (anonAvailability\<lparr>riderId := 2\<rparr>)) = None"
    by (simp add: riderAccount_def ratedDb_def findById_def kitchen2_def)
  have v: "req_isAvailable anonAvailability = Some False"
    "req_latitude customerLocation = Some 12" "req_longitude customerLocation = Some 77"
    by (simp_all add: anonAvailability_def customerLocation_def)
  from rider_patch_target_guard [of ratedDb anonAvailability None customerLocation 1000]
    rider_patch_target_guard [of ratedDb "anonAvailability\<lparr>riderId := 2\<rparr>" None
      customerLocation 1000]
    r3 r2 v
  show ?thesis by metis
qed

text \<open>
  The claim as stated fails: a request without any authenticated caller switches rider
  3 from available to unavailable, and a request of a customer moves rider 3; neither
  is answered with the forbidden error.
\<close>

theorem rider_patch_counterexample:
  "caller anonAvailability = None
   \<and> fst (patchAvailability anonAvailability ratedDb) = Inr (Some False)
   \<and> opt_chain (riderAccount ratedDb 3) availabilityOf = Some True
   \<and> opt_chain (riderAccount (snd (patchAvailability anonAvailability ratedDb)) 3)
        availabilityOf = Some False
   \<and> opt_chain (loc_caller customerLocation) (\<lambda>u. Some (role u)) = Some Customer
   \<and> fst (patchLocation 1000 customerLocation ratedDb) = Inr (Some 12, Some 77)
   \<and> opt_chain (riderAccount ratedDb 3) locationOf = None
   \<and> opt_chain (riderAccount (snd (patchLocation 1000 customerLocation ratedDb)) 3) locationOf
        = Some \<lparr>latitude = Some 12, longitude = Some 77, lastUpdated = Some 1000\<rparr>"
  by (simp add: patchAvailability_def patchLocation_def ratedDb_def kitchen2_def riderWith_def
      anonAvailability_def customerLocation_def customer6_def findById_def save_def
      riderAccount_def availabilityOf_def locationOf_def opt_chain_def emptyLocation_def
      emptyDetails_def Let_def)

subsection \<open>Restaurant listing\<close>

lemma getAll_subset:
  "r \<in> set (getAll q d) \<Longrightarrow>
     \<exists>u \<in> set (users d). role u = Restaurant \<and> r = restaurantWithMenu d u \<and> 0 < menuCount r"
  by (auto simp: getAll_def Let_def split: option.splits prod.splits)

text \<open>
  Claim C9. Every entry of the listing carries exactly the menu items of its restaurant
  that are available, and at least one of them; a restaurant none of whose menu items is
  available does not appear, whatever the query.
\<close>

theorem listing_available_items:
  "(\<forall>r \<in> set (getAll q d).
       re_menuItems r
         = filter (\<lambda>m. restaurantId m = re_id r \<and> mi_isAvailable m) (menuItems d)
       \<and> re_menuItems r \<noteq> [])
   \<and> (\<forall>u. (\<forall>m \<in> set (menuItems d). restaurantId m = uid u \<longrightarrow> \<not> mi_isAvailable m)
          \<longrightarrow> uid u \<notin> re_id ` set (getAll q d))"
proof -
  have A: "re_menuItems r
         = filter (\<lambda>m. restaurantId m = re_id r \<and> mi_isAvailable m) (menuItems d)
       \<and> re_menuItems r \<noteq> []" if "r \<in> set (getAll q d)" for r
    using getAll_subset [OF that] by (auto simp: restaurantWithMenu_def Let_def)
  have B: "uid u \<notin> re_id ` set (getAll q d)"
    if "\<forall>m \<in> set (menuItems d). restaurantId m = uid u \<longrightarrow> \<not> mi_isAvailable m" for u
  proof
    assume "uid u \<in> re_id ` set (getAll q d)"
    then obtain r where r: "r \<in> set (getAll q d)" "re_id r = uid u" by auto
    have "filter (\<lambda>m. restaurantId m = re_id r \<and> mi_isAvailable m) (menuItems d) = []"
      using that r(2) by (auto simp: filter_empty_conv)
    with A [OF r(1)] show False by simp
  qed
  show ?thesis using A B by blast
qed

text \<open>
  Restaurant 1 has an available item and is listed with it; restaurant 2 has only an
  unavailable item and is left out.
\<close>

theorem listing_available_items_witness:
  "uid kitchen2 \<notin> re_id ` set (getAll noQuery menuDb)
   \<and> map re_id (getAll noQuery menuDb) = [1]
   \<and> map re_menuItems (getAll noQuery menuDb) = [[itemOf 40 1 True]]"
proof -
  have h: "\<forall>m \<in> set (menuItems menuDb). restaurantId m = uid kitchen2 \<longrightarrow> \<not> mi_isAvailable m"
    by (simp add: menuDb_def itemOf_def kitchen2_def)
  have e: "map re_id (getAll noQuery menuDb) = [1]"
    "map re_menuItems (getAll noQuery menuDb) = [[itemOf 40 1 True]]"
    by (simp_all add: getAll_def noQuery_def menuDb_def restaurantWithMenu_def itemOf_def
        kitchen1_def kitchen2_def customer6_def Let_def)
  from listing_available_items [of noQuery menuDb, THEN conjunct2, THEN spec, of kitchen2] h e
  show ?thesis by blast
qed

lemma atan2_sin_cos:
  assumes "0 \<le> t" "t < pi / 2"
  shows "atan2 (sqrt (sin t * sin t)) (sqrt (1 - sin t * sin t)) = t"
proof -
  have s: "0 \<le> sin t" using assms by (simp add: sin_ge_zero)
  have c: "0 < cos t" using assms by (simp add: cos_gt_zero_pi)
  have "1 - sin t * sin t = cos t * cos t"
    using sin_cos_squared_add [of t] by (simp add: power2_eq_square algebra_simps)
  then have q: "sqrt (1 - sin t * sin t) = cos t" using c by simp
  have p: "sqrt (sin t * sin t) = sin t" using s by simp
  have "arctan (sin t / cos t) = t"
    using arctan_tan [of t] assms by (simp add: tan_def)
  then show ?thesis using c s by (simp add: atan2_def p q)
qed

lemma haversine_example: "calculateDistance 0 (1 / 1000) 0 0 = 6371 * pi / 180000"
proof -
  have t: "(0::real) \<le> pi / 360000" "pi / 360000 < pi / 2"
    using pi_gt_zero by simp_all
  have "calculateDistance 0 (1 / 1000) 0 0
          = 6371 * (2 * atan2 (sqrt (sin (pi / 360000) * sin (pi / 360000)))
                              (sqrt (1 - sin (pi / 360000) * sin (pi / 360000))))"
    by (simp add: calculateDistance_def Let_def)
  also have "\<dots> = 6371 * (2 * (pi / 360000))"
    using atan2_sin_cos [OF t] by simp
  finally show ?thesis by simp
qed

lemma haversine_example_bounds:
  "calculateDistance 0 (1 / 1000) 0 0 \<le> 25 \<and> \<not> calculateDistance 0 (1 / 1000) 0 0 \<le> 1 / 20"
proof -
  have "pi < 4" by (rule pi_less_4)
  moreover have "2 \<le> pi" by (rule pi_ge_two)
  ultimately show ?thesis unfolding haversine_example by simp
qed

text \<open>
  Away from the two zero coordinates the filter is the distance test: an entry with
  stored non-zero latitude and longitude passes exactly when its Haversine distance
  from the query point is at most the maximum.
\<close>

lemma withinRange_nonzero:
  assumes "latitude (re_address r) = Some la" "longitude (re_address r) = Some lo"
    and "la \<noteq> 0" "lo \<noteq> 0"
  shows "withinRange userLat userLon maxDist r
           \<longleftrightarrow> calculateDistance userLat userLon la lo \<le> maxDist"
  using assms by (simp add: withinRange_def falsy_def Let_def)

text \<open>
  Claim C5 at the example of the specification. The restaurant at (0, 0) is 6371 * pi /
  180000 km (about 0.11 km) from the query point (0, 0.001), which is within 25 km; it
  has an available menu item and is listed when no location is supplied; but the
  listing for that query point with a maximum of 25 km is empty, because a stored
  coordinate 0 is taken for a missing one.
\<close>

theorem listing_origin_excluded:
  "calculateDistance 0 (1 / 1000) 0 0 \<le> 25
   \<and> map re_id (getAll noQuery originDb) = [5]
   \<and> getAll (nearQuery 25) originDb = []
   \<and> getAll (nearQuery (1 / 20)) originDb = []"
  using haversine_example_bounds
  by (simp add: getAll_def noQuery_def nearQuery_def originDb_def originKitchen_def
      restaurantWithMenu_def itemOf_def emptyDetails_def opt_chain_def withinRange_def
      falsy_def Let_def)

subsection \<open>Wishlist items\<close>

lemma addWishlistItem_never_writes:
  "snd (addWishlistItem now reqUser i b d) = d
   \<and> (\<forall>w. fst (addWishlistItem now reqUser i b d) \<noteq> Inr w)"
  by (auto simp: addWishlistItem_def menuItemRef_def split: option.splits)

lemma addWishlistItem_existing_item:
  assumes "find (\<lambda>w. wid w = i \<and> wl_user w = uid reqUser) (wishlists d) = Some w"
    and "findById mid (menuItems d) (ai_menuItem b) = Some m"
  shows "addWishlistItem now reqUser i b d = (Inl InternalError, d)"
  using assms by (simp add: addWishlistItem_def menuItemRef_def)

text \<open>
  Claim C6 at a request the claim says must succeed. Wishlist 30 of customer 6 is for
  restaurant 1 and menu item 40 belongs to restaurant 1, yet the request to add item 40
  is answered with the internal error (HTTP 500) and the wishlist keeps its empty item
  list: the guard reads the property \<^verbatim>\<open>restaurant\<close>, which a menu item does not
  have. A menu item of another restaurant (item 41) gets the same 500, not the
  validation error.
\<close>

theorem wishlist_add_same_restaurant_fails:
  "restaurantId (itemOf 40 1 True) = wl_restaurant wishlist30
   \<and> addWishlistItem 0 customer6 30 addItem40 menuDb = (Inl InternalError, menuDb)
   \<and> http_status InternalError = 500
   \<and> addWishlistItem 0 customer6 30 (addItem40\<lparr>ai_menuItem := 41\<rparr>) menuDb
       = (Inl InternalError, menuDb)"
  by (simp add: addWishlistItem_def menuDb_def wishlist30_def customer6_def addItem40_def
      itemOf_def findById_def menuItemRef_def)

subsection \<open>Public profile\<close>

text \<open>
  Claim C10. The serialization of a user never has the keys \<^verbatim>\<open>password\<close>,
  \<^verbatim>\<open>passwordResetToken\<close> and \<^verbatim>\<open>passwordResetExpires\<close>, and two users whose
  objects agree on every other key serialize to the same object.
\<close>

theorem toJSON_hides_secrets:
  fixes toObject :: "'doc \<Rightarrow> (string \<rightharpoonup> 'v)"
  shows "toJSON toObject u ''password'' = None
   \<and> toJSON toObject u ''passwordResetToken'' = None
   \<and> toJSON toObject u ''passwordResetExpires'' = None
   \<and> ((\<forall>k. k \<notin> secretKeys \<longrightarrow> toObject u1 k = toObject u2 k)
        \<longrightarrow> toJSON toObject u1 = toJSON toObject u2)"
  by (auto simp: toJSON_def Let_def secretKeys_def fun_eq_iff)

theorem toJSON_hides_secrets_witness:
  "toJSON (\<lambda>x. x) profileA = toJSON (\<lambda>x. x) profileB
   \<and> toJSON (\<lambda>x. x) profileB ''password'' = None
   \<and> toJSON (\<lambda>x. x) profileB ''name'' = Some ''Ana''"
proof -
  have h: "\<forall>k. k \<notin> secretKeys \<longrightarrow> (\<lambda>x. x) profileA k = (\<lambda>x. x) profileB k"
    by (simp add: secretKeys_def profileA_def profileB_def)
  have n: "toJSON (\<lambda>x. x) profileB ''name'' = Some ''Ana''"
    by (simp add: toJSON_def profileB_def Let_def)
  from toJSON_hides_secrets [of "\<lambda>x. x" profileB profileA profileB] h n
  show ?thesis by blast
qed

subsection \<open>Order lifecycle\<close>

lemma stateTable_iff:
  "stateTable r s t \<longleftrightarrow>
     (\<not> terminal s \<and> ((successor s = Some t \<and> stepRole t = Some r)
        \<or> (t = Cancelled \<and> r \<in> {Restaurant, Customer, Admin})))"
  by (cases s; cases t; simp add: terminal_def stateTable_def; blast)

lemma permitted_iff: "permitted a s t \<longleftrightarrow> immediateSuccessorFor a s t"
  unfolding permitted_def immediateSuccessorFor_def stateTable_iff by blast

lemma successor_rank: "successor s = Some t \<Longrightarrow> rank t = Suc (rank s)"
  by (cases s) auto

lemma transition_ok:
  "immediateSuccessorFor actor (status ord) target \<Longrightarrow>
     fst (transition actor target ord) = Inr ()
     \<and> status (snd (transition actor target ord)) = target"
  by (simp add: transition_def permitted_iff)

lemma transition_fail:
  "\<not> immediateSuccessorFor actor (status ord) target \<Longrightarrow>
     transition actor target ord = (Inl InvalidTransitionError, ord)"
  by (simp add: transition_def permitted_iff)

lemma step_rank:
  "immediateSuccessorFor actor s target \<Longrightarrow> target = Cancelled \<or> rank target = Suc (rank s)"
  unfolding immediateSuccessorFor_def using successor_rank by blast

lemma terminal_no_step: "terminal s \<Longrightarrow> \<not> immediateSuccessorFor actor s target"
  by (simp add: immediateSuccessorFor_def)

lemma cancel_step:
  "\<not> terminal s \<Longrightarrow> role actor \<in> {Restaurant, Customer, Admin} \<Longrightarrow>
     immediateSuccessorFor actor s Cancelled"
  by (simp add: immediateSuccessorFor_def)

text \<open>
  Claim C1. A requested transition succeeds, and sets the status to the target, exactly
  when the target is the immediate successor permitted for the acting role (or
  \<open>cancelled\<close>, for a role that may cancel, from a non-terminal state); a successful
  step that is not a cancellation advances by one position in the fixed sequence.
  Every other request, and every request on a delivered or cancelled order, fails with
  \<open>InvalidTransitionError\<close> and leaves the order as it was.
\<close>

theorem order_transition:
  "(immediateSuccessorFor actor (status ord) target
      \<longrightarrow> fst (transition actor target ord) = Inr ()
          \<and> status (snd (transition actor target ord)) = target
          \<and> (target = Cancelled \<or> rank target = Suc (rank (status ord))))
   \<and> (\<not> immediateSuccessorFor actor (status ord) target
      \<longrightarrow> transition actor target ord = (Inl InvalidTransitionError, ord))
   \<and> (terminal (status ord)
      \<longrightarrow> transition actor target ord = (Inl InvalidTransitionError, ord))
   \<and> (\<not> terminal (status ord) \<and> role actor \<in> {Restaurant, Customer, Admin}
      \<longrightarrow> fst (transition actor Cancelled ord) = Inr ()
          \<and> status (snd (transition actor Cancelled ord)) = Cancelled)"
  using transition_ok [of actor ord target] transition_fail [of actor ord target]
    step_rank [of actor "status ord" target] terminal_no_step [of "status ord" actor target]
    cancel_step [of "status ord" actor] transition_ok [of actor ord Cancelled]
  by blast

text \<open>
  A restaurant accepts a pending order and cannot jump to \<open>ready\<close>; an available rider
  takes the accepted order; a delivered order cannot be cancelled, an order on the way
  can.
\<close>

theorem order_transition_witness:
  "fst (transition kitchen1 Accepted (orderOf 10 Pending)) = Inr ()
   \<and> status (snd (transition kitchen1 Accepted (orderOf 10 Pending))) = Accepted
   \<and> transition kitchen1 Ready (orderOf 10 Pending)
       = (Inl InvalidTransitionError, orderOf 10 Pending)
   \<and> fst (transition (riderWith 3 (9 / 2) 1) RiderAssigned (orderOf 10 Accepted)) = Inr ()
   \<and> transition kitchen1 Cancelled (orderOf 10 Delivered)
       = (Inl InvalidTransitionError, orderOf 10 Delivered)
   \<and> fst (transition customer6 Cancelled (orderOf 10 OnTheWay)) = Inr ()"
proof -
  have a: "immediateSuccessorFor kitchen1 (status (orderOf 10 Pending)) Accepted"
    by (simp add: immediateSuccessorFor_def terminal_def orderOf_def kitchen1_def)
  have b: "\<not> immediateSuccessorFor kitchen1 (status (orderOf 10 Pending)) Ready"
    by (simp add: immediateSuccessorFor_def terminal_def orderOf_def kitchen1_def)
  have c: "immediateSuccessorFor (riderWith 3 (9 / 2) 1) (status (orderOf 10 Accepted)) RiderAssigned"
    by (simp add: immediateSuccessorFor_def terminal_def orderOf_def riderWith_def
        riderAvailable_def)
  have d: "terminal (status (orderOf 10 Delivered))"
    by (simp add: terminal_def orderOf_def)
  have e: "\<not> terminal (status (orderOf 10 OnTheWay)) \<and> role customer6 \<in> {Restaurant, Customer, Admin}"
    by (simp add: terminal_def orderOf_def customer6_def)
  note T1 = order_transition [of kitchen1 "orderOf 10 Pending" Accepted]
  note T2 = order_transition [of kitchen1 "orderOf 10 Pending" Ready]
  note T3 = order_transition [of "riderWith 3 (9 / 2) 1" "orderOf 10 Accepted" RiderAssigned]
  note T4 = order_transition [of kitchen1 "orderOf 10 Delivered" Cancelled]
  note T5 = order_transition [of customer6 "orderOf 10 OnTheWay" Cancelled]
  have 1: "fst (transition kitchen1 Accepted (orderOf 10 Pending)) = Inr ()
     \<and> status (snd (transition kitchen1 Accepted (orderOf 10 Pending))) = Accepted"
    using T1 a by blast
  have 2: "transition kitchen1 Ready (orderOf 10 Pending)
       = (Inl InvalidTransitionError, orderOf 10 Pending)"
    using T2 b by blast
  have 3: "fst (transition (riderWith 3 (9 / 2) 1) RiderAssigned (orderOf 10 Accepted)) = Inr ()"
    using T3 c by blast
  have 4: "transition kitchen1 Cancelled (orderOf 10 Delivered)
       = (Inl InvalidTransitionError, orderOf 10 Delivered)"
    using T4 d by blast
  have 5: "fst (transition customer6 Cancelled (orderOf 10 OnTheWay)) = Inr ()"
    using T5 e by blast
  show ?thesis using 1 2 3 4 5 by blast
qed

end
